theory Spec2Isabelle
  imports Main "HOL-Library.Sublist"
begin

section \<open>JavaScript values used by the models\<close>

text \<open>
  The arguments of the filter builders are JavaScript primitives: the routes hand over
  query-string values (strings or \<open>undefined\<close>), the tests and the doc comments use numbers.
  Numbers are modelled at their integral values (\<open>JNum\<close> carries an \<open>int\<close>); NaN,
  fractions and infinities are not part of the model.
\<close>

datatype jsval = JUndefined | JNull | JBool bool | JNum int | JStr string

text \<open>The condition of \<open>v ? a : b\<close> and of \<open>if (v)\<close>: ToBoolean.\<close>

fun truthy :: "jsval \<Rightarrow> bool" where
  "truthy JUndefined = False"
| "truthy JNull = False"
| "truthy (JBool b) = b"
| "truthy (JNum n) = (n \<noteq> 0)"
| "truthy (JStr s) = (s \<noteq> [])"

definition digit_char :: "nat \<Rightarrow> char" where
  "digit_char d = char_of (d + 48)"

text \<open>Decimal digits of a natural number, most significant first.\<close>

fun decimal :: "nat \<Rightarrow> string" where
  "decimal n =
     (if n < 10 then [digit_char n] else decimal (n div 10) @ [digit_char (n mod 10)])"

declare decimal.simps [simp del]

text \<open>
  What a template literal \<open>`${v}`\<close> and string concatenation make of a primitive:
  ToString. For an integral number below \<open>10^21\<close> in magnitude that is its decimal
  numeral, with a leading minus sign when negative. On these values the conversion cannot
  throw; the values on which it can are added as \<open>jsany\<close> further down.
\<close>

fun toString :: "jsval \<Rightarrow> string" where
  "toString JUndefined = ''undefined''"
| "toString JNull = ''null''"
| "toString (JBool b) = (if b then ''true'' else ''false'')"
| "toString (JNum n) = (if n < 0 then ''-'' @ decimal (nat (- n)) else decimal (nat n))"
| "toString (JStr s) = s"

text \<open>\<open>Array.prototype.join\<close> on an array of strings.\<close>

fun join :: "string \<Rightarrow> string list \<Rightarrow> string" where
  "join sep [] = []"
| "join sep [x] = x"
| "join sep (x # y # ys) = x @ sep @ join sep (y # ys)"

section \<open>Errors and results\<close>

text \<open>The two error classes of \<open>expressError\<close> that the models throw, with their message.\<close>

datatype error = BadRequestError string | NotFoundError string

text \<open>The two local arrays that \<open>createFilterSql\<close> fills by \<open>push\<close>.\<close>

record arrays =
  sqlStatments :: "string list"
  sanatizedStatments :: "string list"

text \<open>
  What \<open>createFilterSql\<close> returns: the object \<open>{sqlStatments, sanatizedStatments}\<close>
  or the value \<open>false\<close>.
\<close>

datatype filter_sql = ReturnFalse | ReturnObject string "string list"

section \<open>\<open>Company.createFilterSql\<close> (src/models/company.js)\<close>

text \<open>
  The two employee bounds are modelled at the type the function's doc comment gives them:
  a number, or \<open>undefined\<close> when the caller passes nothing (\<open>None\<close>). The name is any
  primitive.
\<close>

fun bound_val :: "int option \<Rightarrow> jsval" where
  "bound_val None = JUndefined"
| "bound_val (Some n) = JNum n"

text \<open>
  \<open>a < b\<close> on two such bounds: both operands go through ToNumber, \<open>undefined\<close> becomes
  NaN, and a comparison with NaN is false.
\<close>

fun js_less :: "int option \<Rightarrow> int option \<Rightarrow> bool" where
  "js_less (Some a) (Some b) = (a < b)"
| "js_less _ _ = False"

text \<open>
  The three conditional pushes, in the order of the source. \<open>push\<close> returns the new
  length, which is at least one, so the right operand of \<open>&&\<close> always runs.
\<close>

definition Company_statements :: "jsval \<Rightarrow> int option \<Rightarrow> int option \<Rightarrow> arrays" where
  "Company_statements name minEmployees maxEmployees =
     (let a0 = \<lparr>sqlStatments = [], sanatizedStatments = []\<rparr>;
          a1 = (if truthy name
                then \<lparr>sqlStatments = sqlStatments a0 @
                         [''name ILIKE $'' @ decimal (length (sqlStatments a0) + 1)],
                       sanatizedStatments = sanatizedStatments a0 @ [toString name @ ''%'']\<rparr>
                else a0);
          a2 = (if truthy (bound_val minEmployees)
                then \<lparr>sqlStatments = sqlStatments a1 @
                         [''num_employees > $'' @ decimal (length (sqlStatments a1) + 1)],
                       sanatizedStatments = sanatizedStatments a1 @
                         [toString (bound_val minEmployees)]\<rparr>
                else a1);
          a3 = (if truthy (bound_val maxEmployees)
                then \<lparr>sqlStatments = sqlStatments a2 @
                         [''num_employees < $'' @ decimal (length (sqlStatments a2) + 1)],
                       sanatizedStatments = sanatizedStatments a2 @
                         [toString (bound_val maxEmployees)]\<rparr>
                else a2)
      in a3)"

definition Company_createFilterSql ::
    "jsval \<Rightarrow> int option \<Rightarrow> int option \<Rightarrow> error + filter_sql" where
  "Company_createFilterSql name minEmployees maxEmployees =
     (let a = Company_statements name minEmployees maxEmployees
      in if js_less maxEmployees minEmployees
         then Inl (BadRequestError ''minEmployees connot be greater than maxEmployees'')
         else if length (sqlStatments a) > 0
         then Inr (ReturnObject (''WHERE '' @ join '' AND '' (sqlStatments a))
                     (sanatizedStatments a))
         else Inr ReturnFalse)"

section \<open>\<open>Job.createFilterSql\<close> (models/job.js)\<close>

definition Job_statements :: "jsval \<Rightarrow> jsval \<Rightarrow> jsval \<Rightarrow> arrays" where
  "Job_statements title minSalary hasEquity =
     (let a0 = \<lparr>sqlStatments = [], sanatizedStatments = []\<rparr>;
          a1 = (if truthy title
                then \<lparr>sqlStatments = sqlStatments a0 @
                         [''title ILIKE $'' @ decimal (length (sqlStatments a0) + 1)],
                       sanatizedStatments = sanatizedStatments a0 @ [toString title @ ''%'']\<rparr>
                else a0);
          a2 = (if truthy minSalary
                then \<lparr>sqlStatments = sqlStatments a1 @
                         [''salary > $'' @ decimal (length (sqlStatments a1) + 1)],
                       sanatizedStatments = sanatizedStatments a1 @ [toString minSalary]\<rparr>
                else a1);
          a3 = (if truthy hasEquity
                then a2\<lparr>sqlStatments := sqlStatments a2 @ [''equity > 0'']\<rparr>
                else a2)
      in a3)"

text \<open>
  The function has no \<open>throw\<close>; the result keeps the type of its sibling in the company
  model so that "raises" and "returns" are both expressible.
\<close>

definition Job_createFilterSql :: "jsval \<Rightarrow> jsval \<Rightarrow> jsval \<Rightarrow> error + filter_sql" where
  "Job_createFilterSql title minSalary hasEquity =
     (let a = Job_statements title minSalary hasEquity
      in if length (sqlStatments a) > 0
         then Inr (ReturnObject (''WHERE '' @ join '' AND '' (sqlStatments a))
                     (sanatizedStatments a))
         else Inr ReturnFalse)"

section \<open>Reading the placeholders of a clause\<close>

definition is_digit :: "char \<Rightarrow> bool" where
  "is_digit c = (c \<in> set ''0123456789'')"

definition digits_value :: "string \<Rightarrow> nat" where
  "digits_value ds = foldl (\<lambda>acc c. 10 * acc + (of_char c - 48)) 0 ds"

text \<open>
  The positional placeholders of a clause text, left to right: every \<open>$\<close> with the
  number written after it (0 when no digit follows).
\<close>

fun placeholders :: "string \<Rightarrow> nat list" where
  "placeholders [] = []"
| "placeholders (c # cs) =
     (if c = CHR ''$'' then digits_value (takeWhile is_digit cs) # placeholders cs
      else placeholders cs)"

text \<open>The predicate of a fragment: its text up to the placeholder.\<close>

definition predicate_of :: "string \<Rightarrow> string" where
  "predicate_of frag = takeWhile (\<lambda>c. c \<noteq> CHR ''$'') frag"

section \<open>The callers: \<open>findAll\<close>\<close>

text \<open>
  The database is outside the models. \<open>db.query(text, values)\<close> is a parameter \<open>db\<close>
  that answers the rows of a query; every model returns, next to its result, the list of
  queries it has sent, in order. The second argument of \<open>db.query\<close> is an array of
  values or, in \<open>findAll\<close>, the empty string.
\<close>

datatype query_values = ValuesArray "jsval list" | ValuesString string

type_synonym query = "string \<times> query_values"

definition nl :: string where
  "nl = [CHR 0x0A]"

definition indent :: "nat \<Rightarrow> string \<Rightarrow> string" where
  "indent n s = replicate n (CHR '' '') @ s"

text \<open>
  The destructuring \<open>const {sqlStatments, sanatizedStatments} = ...\<close>: on the object it
  reads the two properties, on \<open>false\<close> both names are \<open>undefined\<close>.
\<close>

fun destructure :: "filter_sql \<Rightarrow> jsval \<times> string list option" where
  "destructure ReturnFalse = (JUndefined, None)"
| "destructure (ReturnObject sql vals) = (JStr sql, Some vals)"

text \<open>\<open>sanatizedStatments ? sanatizedStatments : ''\<close>; an array is always truthy.\<close>

fun values_arg :: "string list option \<Rightarrow> query_values" where
  "values_arg None = ValuesString []"
| "values_arg (Some vals) = ValuesArray (map JStr vals)"

definition Company_findAll_text :: "jsval \<Rightarrow> string" where
  \<open>Company_findAll_text sqlStatments' =
     ''SELECT handle,'' @ nl @
     indent 18 ''name,'' @ nl @
     indent 18 ''description,'' @ nl @
     indent 18 ''num_employees AS "numEmployees",'' @ nl @
     indent 18 ''logo_url AS "logoUrl"'' @ nl @
     indent 11 ''FROM companies'' @ nl @
     indent 11 (if truthy sqlStatments' then toString sqlStatments' else []) @ nl @
     indent 11 ''ORDER BY name''\<close>

definition Company_findAll ::
    "(string \<Rightarrow> query_values \<Rightarrow> 'row list) \<Rightarrow> jsval \<Rightarrow> int option \<Rightarrow> int option
       \<Rightarrow> (error + 'row list) \<times> query list" where
  "Company_findAll db name minEmployees maxEmployees =
     (case Company_createFilterSql name minEmployees maxEmployees of
        Inl e \<Rightarrow> (Inl e, [])
      | Inr r \<Rightarrow>
          (let (sqlStatments', sanatizedStatments') = destructure r;
               q = (Company_findAll_text sqlStatments', values_arg sanatizedStatments')
           in (Inr (db (fst q) (snd q)), [q])))"

definition Job_findAll_text :: "jsval \<Rightarrow> string" where
  \<open>Job_findAll_text sqlStatments' =
     ''SELECT id,'' @ nl @
     indent 22 ''title,'' @ nl @
     indent 22 ''salary,'' @ nl @
     indent 22 ''equity,'' @ nl @
     indent 22 ''company_handle AS "companyHandle"'' @ nl @
     indent 15 ''FROM jobs'' @ nl @
     indent 15 (if truthy sqlStatments' then toString sqlStatments' else []) @ nl @
     indent 15 ''ORDER BY company_handle''\<close>

definition Job_findAll ::
    "(string \<Rightarrow> query_values \<Rightarrow> 'row list) \<Rightarrow> jsval \<Rightarrow> jsval \<Rightarrow> jsval
       \<Rightarrow> (error + 'row list) \<times> query list" where
  "Job_findAll db title minSalary hasEquity =
     (case Job_createFilterSql title minSalary hasEquity of
        Inl e \<Rightarrow> (Inl e, [])
      | Inr r \<Rightarrow>
          (let (sqlStatments', sanatizedStatments') = destructure r;
               q = (Job_findAll_text sqlStatments', values_arg sanatizedStatments')
           in (Inr (db (fst q) (snd q)), [q])))"

section \<open>Partial updates\<close>

text \<open>
  Modelled from the spec: \<open>sqlForPartialUpdate\<close> of helpers/sql.js, which the models
  import and which is not among the sources. The definition follows section 4.2 of the
  specification: an empty field mapping is the validation error "no data"; otherwise each
  key, in iteration order, gives the fragment \<open>column = $n\<close> with \<open>n\<close> its 1-based
  position and the column taken from the column map, or the key itself when the map has
  no entry; the fragments are joined with commas and the values are returned in the same
  order. The field mapping (\<open>fields\<close> in the specification) is the list
  \<open>dataToUpdate\<close> of its entries in iteration order.
\<close>

definition column_of :: "(string \<rightharpoonup> string) \<Rightarrow> string \<Rightarrow> string" where
  "column_of columnMap key = (case columnMap key of None \<Rightarrow> key | Some col \<Rightarrow> col)"

definition sqlForPartialUpdate ::
    "(string \<times> jsval) list \<Rightarrow> (string \<rightharpoonup> string) \<Rightarrow> error + string \<times> jsval list" where
  "sqlForPartialUpdate dataToUpdate columnMap =
     (if dataToUpdate = [] then Inl (BadRequestError ''no data'')
      else Inr (join '',''
                  (map (\<lambda>(idx, key). column_of columnMap key @ '' = $'' @ decimal (idx + 1))
                     (enumerate 0 (map fst dataToUpdate))),
                map snd dataToUpdate))"

text \<open>
  \<open>Job.update\<close> (models/job.js), with the column map it passes; \<open>jobId\<close> is the
  parameter \<open>id\<close> of the source.
\<close>

definition Job_update_columns :: "string \<rightharpoonup> string" where
  "Job_update_columns =
     map_of [(''title'', ''title''), (''salary'', ''salary''), (''equity'', ''equity'')]"

definition Job_update_text :: "string \<Rightarrow> string \<Rightarrow> string" where
  \<open>Job_update_text setCols idVarIdx =
     ''UPDATE jobs '' @ nl @
     indent 22 (''SET '' @ setCols @ '' '') @ nl @
     indent 22 (''WHERE id = '' @ idVarIdx @ '' '') @ nl @
     indent 22 ''RETURNING id, '' @ nl @
     indent 32 ''title, '' @ nl @
     indent 32 ''salary, '' @ nl @
     indent 32 ''equity, '' @ nl @
     indent 32 ''company_handle AS "companyHandle"''\<close>

definition Job_update ::
    "(string \<Rightarrow> query_values \<Rightarrow> 'row list) \<Rightarrow> jsval \<Rightarrow> (string \<times> jsval) list
       \<Rightarrow> (error + 'row) \<times> query list" where
  "Job_update db jobId data =
     (case sqlForPartialUpdate data Job_update_columns of
        Inl e \<Rightarrow> (Inl e, [])
      | Inr (setCols, vals) \<Rightarrow>
          (let idVarIdx = ''$'' @ decimal (length vals + 1);
               querySql = Job_update_text setCols idVarIdx;
               q = (querySql, ValuesArray (vals @ [jobId]))
           in (case db (fst q) (snd q) of
                 [] \<Rightarrow> Inl (NotFoundError (''No job: '' @ toString jobId))
               | job # _ \<Rightarrow> Inr job,
               [q])))"

section \<open>\<open>Job.createFilterSql\<close> on arguments of any kind\<close>

text \<open>
  The values of the first section are those whose conversion to a string cannot fail.
  The function accepts anything, and a template literal \<open>`${v}`\<close> throws a
  \<open>TypeError\<close> when \<open>v\<close> is a Symbol and runs the \<open>toString\<close> and \<open>valueOf\<close> of
  an object, which may throw what they like. \<open>jsany\<close> adds these values: a Symbol with
  its description, and any other value (an object or array, a BigInt, a fractional or
  non-finite number) given by the two things the function observes of it, the result of
  ToBoolean and the outcome of ToString.
\<close>

datatype exception = AppError error | TypeError string | OtherThrown string

datatype jsany = Prim jsval | JSymbol string | JOther bool "exception + string"

fun truthy_any :: "jsany \<Rightarrow> bool" where
  "truthy_any (Prim v) = truthy v"
| "truthy_any (JSymbol d) = True"
| "truthy_any (JOther b r) = b"

fun toString_any :: "jsany \<Rightarrow> exception + string" where
  "toString_any (Prim v) = Inr (toString v)"
| "toString_any (JSymbol d) = Inl (TypeError ''Cannot convert a Symbol value to a string'')"
| "toString_any (JOther b r) = r"

fun is_other :: "jsany \<Rightarrow> bool" where
  "is_other (JOther b r) = True"
| "is_other _ = False"

text \<open>
  The three statements again, each template literal now an operation that may throw. In
  \<open>a.push(x) && b.push(`${v}%`)\<close> the first push has run when the conversion of \<open>v\<close>
  throws; the arrays are local, so the exception is all that the caller sees. The
  fragment pushed for \<open>hasEquity\<close> is a constant: \<open>hasEquity\<close> is tested but never
  converted.
\<close>

definition Job_statements_any :: "jsany \<Rightarrow> jsany \<Rightarrow> jsany \<Rightarrow> exception + arrays" where
  "Job_statements_any title minSalary hasEquity =
     (let a0 = \<lparr>sqlStatments = [], sanatizedStatments = []\<rparr>
      in case (if truthy_any title
               then (case toString_any title of
                       Inl e \<Rightarrow> Inl e
                     | Inr s \<Rightarrow>
                         Inr \<lparr>sqlStatments = sqlStatments a0 @
                                [''title ILIKE $'' @ decimal (length (sqlStatments a0) + 1)],
                              sanatizedStatments = sanatizedStatments a0 @ [s @ ''%'']\<rparr>)
               else Inr a0) of
           Inl e \<Rightarrow> Inl e
         | Inr a1 \<Rightarrow>
             (case (if truthy_any minSalary
                    then (case toString_any minSalary of
                            Inl e \<Rightarrow> Inl e
                          | Inr s \<Rightarrow>
                              Inr \<lparr>sqlStatments = sqlStatments a1 @
                                     [''salary > $'' @ decimal (length (sqlStatments a1) + 1)],
                                   sanatizedStatments = sanatizedStatments a1 @ [s]\<rparr>)
                    else Inr a1) of
                Inl e \<Rightarrow> Inl e
              | Inr a2 \<Rightarrow>
                  Inr (if truthy_any hasEquity
                       then a2\<lparr>sqlStatments := sqlStatments a2 @ [''equity > 0'']\<rparr>
                       else a2)))"

definition Job_createFilterSql_any ::
    "jsany \<Rightarrow> jsany \<Rightarrow> jsany \<Rightarrow> exception + filter_sql" where
  "Job_createFilterSql_any title minSalary hasEquity =
     (case Job_statements_any title minSalary hasEquity of
        Inl e \<Rightarrow> Inl e
      | Inr a \<Rightarrow>
          if length (sqlStatments a) > 0
          then Inr (ReturnObject (''WHERE '' @ join '' AND '' (sqlStatments a))
                      (sanatizedStatments a))
          else Inr ReturnFalse)"

section \<open>Basic facts\<close>

lemma decimal_1: "decimal (Suc 0) = ''1''"
  by code_simp

lemma decimal_2: "decimal 2 = ''2''"
  by code_simp

lemma decimal_3: "decimal 3 = ''3''"
  by code_simp

lemma decimal_Suc2: "decimal (Suc (Suc 0)) = ''2''"
  by code_simp

lemma decimal_Suc3: "decimal (Suc (Suc (Suc 0))) = ''3''"
  by code_simp

lemmas stmts_defs = Company_statements_def Job_statements_def Let_def
  decimal_1 decimal_2 decimal_3 decimal_Suc2 decimal_Suc3

lemma join_last_suffix: "suffix x (join sep (xs @ [x]))"
proof (induction sep xs rule: join.induct)
  case (1 sep)
  show ?case by simp
next
  case (2 sep y)
  show ?case by (simp add: suffix_def)
next
  case (3 sep y z zs)
  then show ?case by (auto simp: suffix_def)
qed

lemma join_nonempty: "x \<noteq> [] \<Longrightarrow> join sep (x # xs) \<noteq> []"
  by (cases xs) simp_all

subsection \<open>The returned object is the joined fragments and the bind values\<close>

lemma company_clause_text:
  "Company_createFilterSql name mn mx = Inr (ReturnObject sql vals) \<Longrightarrow>
   sql = ''WHERE '' @ join '' AND '' (sqlStatments (Company_statements name mn mx)) \<and>
   vals = sanatizedStatments (Company_statements name mn mx)"
  by (auto simp: Company_createFilterSql_def Let_def split: if_splits)

lemma job_clause_text:
  "Job_createFilterSql t m h = Inr (ReturnObject sql vals) \<Longrightarrow>
   sql = ''WHERE '' @ join '' AND '' (sqlStatments (Job_statements t m h)) \<and>
   vals = sanatizedStatments (Job_statements t m h)"
  by (auto simp: Job_createFilterSql_def Let_def split: if_splits)

subsection \<open>Placeholders, by cases on which inputs pass the truthiness test\<close>

lemma company_placeholders:
  "Company_createFilterSql name mn mx = Inr (ReturnObject sql vals) \<Longrightarrow>
   placeholders sql = [1..<Suc (length vals)]"
  by (cases "truthy name"; cases "truthy (bound_val mn)"; cases "truthy (bound_val mx)")
     (auto simp: Company_createFilterSql_def stmts_defs is_digit_def digits_value_def
           split: if_splits)

lemma job_placeholders:
  "Job_createFilterSql t m h = Inr (ReturnObject sql vals) \<Longrightarrow>
   placeholders sql = [1..<Suc (length vals)]"
  by (cases "truthy t"; cases "truthy m"; cases "truthy h")
     (auto simp: Job_createFilterSql_def stmts_defs is_digit_def digits_value_def
           split: if_splits)

lemma company_order:
  "map predicate_of (sqlStatments (Company_statements name mn mx)) =
   map fst (filter (\<lambda>p. truthy (snd p))
     [(''name ILIKE '', name), (''num_employees > '', bound_val mn),
      (''num_employees < '', bound_val mx)])"
  by (simp add: stmts_defs predicate_of_def)

lemma job_order:
  "map predicate_of (sqlStatments (Job_statements t m h)) =
   map fst (filter (\<lambda>p. truthy (snd p))
     [(''title ILIKE '', t), (''salary > '', m), (''equity > 0'', h)])"
  by (simp add: stmts_defs predicate_of_def)

lemma job_equity_arrays:
  "truthy h \<Longrightarrow> Job_statements t m h =
     \<lparr>sqlStatments = sqlStatments (Job_statements t m JUndefined) @ [''equity > 0''],
      sanatizedStatments = sanatizedStatments (Job_statements t m JUndefined)\<rparr>"
  by (simp add: Job_statements_def Let_def)

lemma job_returns:
  "Job_createFilterSql t m h = Inr ReturnFalse \<or>
   (\<exists>sql vals. Job_createFilterSql t m h = Inr (ReturnObject sql vals))"
  by (simp add: Job_createFilterSql_def Let_def)

subsection \<open>The job filter on arguments of any kind\<close>

lemma job_any_raises:
  "(Job_createFilterSql_any title minSalary hasEquity = Inl e) =
     ((truthy_any title \<and> toString_any title = Inl e) \<or>
      (\<not> (truthy_any title \<and> isl (toString_any title)) \<and>
       truthy_any minSalary \<and> toString_any minSalary = Inl e))"
  by (cases "toString_any title"; cases "toString_any minSalary")
     (auto simp: Job_createFilterSql_any_def Job_statements_any_def Let_def)

lemma job_any_prim:
  "Job_createFilterSql_any (Prim t) (Prim m) h =
     map_sum AppError id (Job_createFilterSql t m (JBool (truthy_any h)))"
  by (simp add: Job_createFilterSql_any_def Job_statements_any_def Job_createFilterSql_def
        Job_statements_def Let_def)

lemma job_any_no_validation_error:
  "\<not> is_other title \<and> \<not> is_other minSalary \<Longrightarrow>
   Job_createFilterSql_any title minSalary hasEquity \<noteq> Inl (AppError (BadRequestError msg))"
  by (cases title; cases minSalary) (auto simp: job_any_raises)

section \<open>The claims\<close>

text \<open>
  C1: whatever inputs are supplied or skipped, the placeholders of a compiled clause are
  exactly 1, 2, ..., k in this order, k is the number of bind values, and the fragments
  are those of the inputs that pass the test, in the order in which the inputs are
  declared. This holds for the company filter (whenever it returns a clause) and for the
  job filter.
\<close>

theorem filter_placeholders_contiguous:
  "(Company_createFilterSql name minEmployees maxEmployees = Inr (ReturnObject sql vals) \<longrightarrow>
      placeholders sql = [1..<Suc (length vals)] \<and>
      length (placeholders sql) = length vals \<and>
      sql = ''WHERE '' @
        join '' AND '' (sqlStatments (Company_statements name minEmployees maxEmployees)) \<and>
      map predicate_of (sqlStatments (Company_statements name minEmployees maxEmployees)) =
        map fst (filter (\<lambda>p. truthy (snd p))
          [(''name ILIKE '', name), (''num_employees > '', bound_val minEmployees),
           (''num_employees < '', bound_val maxEmployees)])) \<and>
   (Job_createFilterSql title minSalary hasEquity = Inr (ReturnObject sql' vals') \<longrightarrow>
      placeholders sql' = [1..<Suc (length vals')] \<and>
      length (placeholders sql') = length vals' \<and>
      sql' = ''WHERE '' @
        join '' AND '' (sqlStatments (Job_statements title minSalary hasEquity)) \<and>
      map predicate_of (sqlStatments (Job_statements title minSalary hasEquity)) =
        map fst (filter (\<lambda>p. truthy (snd p))
          [(''title ILIKE '', title), (''salary > '', minSalary),
           (''equity > 0'', hasEquity)]))"
proof (intro conjI impI)
  assume c: "Company_createFilterSql name minEmployees maxEmployees =
    Inr (ReturnObject sql vals)"
  from company_placeholders [OF c]
  show p: "placeholders sql = [1..<Suc (length vals)]" .
  show "length (placeholders sql) = length vals" by (simp add: p del: upt_Suc)
  from company_clause_text [OF c]
  show "sql = ''WHERE '' @
    join '' AND '' (sqlStatments (Company_statements name minEmployees maxEmployees))"
    by simp
  show "map predicate_of (sqlStatments (Company_statements name minEmployees maxEmployees)) =
    map fst (filter (\<lambda>p. truthy (snd p))
      [(''name ILIKE '', name), (''num_employees > '', bound_val minEmployees),
       (''num_employees < '', bound_val maxEmployees)])"
    by (rule company_order)
next
  assume j: "Job_createFilterSql title minSalary hasEquity = Inr (ReturnObject sql' vals')"
  from job_placeholders [OF j]
  show p: "placeholders sql' = [1..<Suc (length vals')]" .
  show "length (placeholders sql') = length vals'" by (simp add: p del: upt_Suc)
  from job_clause_text [OF j]
  show "sql' = ''WHERE '' @
    join '' AND '' (sqlStatments (Job_statements title minSalary hasEquity))"
    by simp
  show "map predicate_of (sqlStatments (Job_statements title minSalary hasEquity)) =
    map fst (filter (\<lambda>p. truthy (snd p))
      [(''title ILIKE '', title), (''salary > '', minSalary), (''equity > 0'', hasEquity)])"
    by (rule job_order)
qed

theorem filter_placeholders_contiguous_witness:
  "Company_createFilterSql (JStr ''ba'') None (Some 500) =
     Inr (ReturnObject ''WHERE name ILIKE $1 AND num_employees < $2'' [''ba%'', ''500'']) \<and>
   placeholders ''WHERE name ILIKE $1 AND num_employees < $2'' = [1, 2] \<and>
   Job_createFilterSql JUndefined (JNum 100) (JBool True) =
     Inr (ReturnObject ''WHERE salary > $1 AND equity > 0'' [''100'']) \<and>
   placeholders ''WHERE salary > $1 AND equity > 0'' = [1]"
proof -
  have c: "Company_createFilterSql (JStr ''ba'') None (Some 500) =
     Inr (ReturnObject ''WHERE name ILIKE $1 AND num_employees < $2'' [''ba%'', ''500''])"
    by code_simp
  have j: "Job_createFilterSql JUndefined (JNum 100) (JBool True) =
     Inr (ReturnObject ''WHERE salary > $1 AND equity > 0'' [''100''])"
    by code_simp
  have u: "[1..<Suc (length [''ba%'', ''500''])] = [1, 2]"
    "[1..<Suc (length [''100''])] = [1]"
    by code_simp+
  from filter_placeholders_contiguous
    [where name = "JStr ''ba''" and minEmployees = None and maxEmployees = "Some 500"
       and sql = "''WHERE name ILIKE $1 AND num_employees < $2''"
       and vals = "[''ba%'', ''500'']"
       and title = JUndefined and minSalary = "JNum 100" and hasEquity = "JBool True"
       and sql' = "''WHERE salary > $1 AND equity > 0''" and vals' = "[''100'']"]
  have "placeholders ''WHERE name ILIKE $1 AND num_employees < $2'' =
      [1..<Suc (length [''ba%'', ''500''])] \<and>
    placeholders ''WHERE salary > $1 AND equity > 0'' = [1..<Suc (length [''100''])]"
    using c j by blast
  with c j u show ?thesis by simp
qed

text \<open>
  C2: the company filter for name "ba", minimum 200 and maximum 500 is the clause
  \<open>WHERE name ILIKE $1 AND num_employees > $2 AND num_employees < $3\<close> with the bind
  values "ba%", "200", "500": the name followed by the wildcard \<open>%\<close>, and the two
  bounds as strings.
\<close>

theorem company_filter_ba_200_500:
  "Company_createFilterSql (JStr ''ba'') (Some 200) (Some 500) =
     Inr (ReturnObject ''WHERE name ILIKE $1 AND num_employees > $2 AND num_employees < $3''
            [''ba%'', ''200'', ''500'']) \<and>
   [''ba%'', ''200'', ''500''] = [''ba'' @ ''%'', toString (JNum 200), toString (JNum 500)]"
  by code_simp

text \<open>
  C3: for two numeric bounds with the maximum below the minimum the company filter
  throws \<open>BadRequestError\<close>; nothing is returned.
\<close>

theorem company_bounds_rejected:
  "maxEmployees < minEmployees \<Longrightarrow>
   Company_createFilterSql name (Some minEmployees) (Some maxEmployees) =
     Inl (BadRequestError ''minEmployees connot be greater than maxEmployees'')"
  by (simp add: Company_createFilterSql_def Let_def)

theorem company_bounds_rejected_witness:
  "(200::int) < 500 \<and>
   Company_createFilterSql (JStr ''ba'') (Some 500) (Some 200) =
     Inl (BadRequestError ''minEmployees connot be greater than maxEmployees'')"
proof -
  have h: "(200::int) < 500" by simp
  from company_bounds_rejected [OF h, of "JStr ''ba''"] h show ?thesis by simp
qed

text \<open>
  C4: a numeric filter input with the explicit value zero has its fragment and bind value
  in the compiled clause. The code tests the input with \<open>?\<close>, and zero is falsy: at
  the inputs below the zero bound is left out.
\<close>

theorem zero_bound_skipped:
  "Company_createFilterSql (JStr ''ba'') (Some 0) None =
     Inr (ReturnObject ''WHERE name ILIKE $1'' [''ba%'']) \<and>
   Job_createFilterSql (JStr ''test'') (JNum 0) JUndefined =
     Inr (ReturnObject ''WHERE title ILIKE $1'' [''test%'']) \<and>
   Job_createFilterSql JUndefined (JNum 0) JUndefined = Inr ReturnFalse"
  by code_simp

text \<open>
  C5: for every column map, a partial update of an empty field mapping fails with the
  validation error "no data"; \<open>Job.update\<close> then throws before it sends any query; and
  a compiled SET clause is never empty.
\<close>

theorem empty_update_rejected:
  "sqlForPartialUpdate [] columnMap = Inl (BadRequestError ''no data'') \<and>
   Job_update db jobId [] = (Inl (BadRequestError ''no data''), []) \<and>
   (sqlForPartialUpdate dataToUpdate columnMap = Inr (setCols, vals) \<longrightarrow> setCols \<noteq> [])"
proof (intro conjI impI)
  show "sqlForPartialUpdate [] columnMap = Inl (BadRequestError ''no data'')"
    by (simp add: sqlForPartialUpdate_def)
  show "Job_update db jobId [] = (Inl (BadRequestError ''no data''), [])"
    by (simp add: Job_update_def sqlForPartialUpdate_def)
next
  assume r: "sqlForPartialUpdate dataToUpdate columnMap = Inr (setCols, vals)"
  then obtain kv rest where d: "dataToUpdate = kv # rest"
    by (cases dataToUpdate) (auto simp: sqlForPartialUpdate_def)
  from r d show "setCols \<noteq> []"
    by (auto simp: sqlForPartialUpdate_def join_nonempty)
qed

theorem empty_update_rejected_witness:
  "sqlForPartialUpdate [] Job_update_columns = Inl (BadRequestError ''no data'') \<and>
   Job_update (\<lambda>text vals. [()]) (JNum 1) [] = (Inl (BadRequestError ''no data''), []) \<and>
   sqlForPartialUpdate [(''salary'', JNum 10), (''equity'', JStr ''0.5'')] Job_update_columns =
     Inr (''salary = $1,equity = $2'', [JNum 10, JStr ''0.5'']) \<and>
   ''salary = $1,equity = $2'' \<noteq> []"
proof -
  have e: "sqlForPartialUpdate [(''salary'', JNum 10), (''equity'', JStr ''0.5'')]
      Job_update_columns = Inr (''salary = $1,equity = $2'', [JNum 10, JStr ''0.5''])"
    by code_simp
  from empty_update_rejected
    [where columnMap = Job_update_columns and db = "\<lambda>text vals. [()]" and jobId = "JNum 1"
       and dataToUpdate = "[(''salary'', JNum 10), (''equity'', JStr ''0.5'')]"
       and setCols = "''salary = $1,equity = $2''" and vals = "[JNum 10, JStr ''0.5'']"]
    e
  show ?thesis by blast
qed

text \<open>
  C6: when \<open>hasEquity\<close> is truthy the job filter returns a clause that ends with the
  constant fragment \<open>equity > 0\<close>; the fragment has no placeholder, the bind values are
  those of the same call without \<open>hasEquity\<close>, and the placeholders of the clause are
  still 1, ..., k for its k bind values.
\<close>

theorem hasEquity_constant_fragment:
  "truthy hasEquity \<Longrightarrow>
   \<exists>sql vals.
     Job_createFilterSql title minSalary hasEquity = Inr (ReturnObject sql vals) \<and>
     suffix ''equity > 0'' sql \<and>
     placeholders ''equity > 0'' = [] \<and>
     sqlStatments (Job_statements title minSalary hasEquity) =
       sqlStatments (Job_statements title minSalary JUndefined) @ [''equity > 0''] \<and>
     vals = sanatizedStatments (Job_statements title minSalary JUndefined) \<and>
     placeholders sql = [1..<Suc (length vals)]"
proof -
  assume h: "truthy hasEquity"
  let ?a = "Job_statements title minSalary JUndefined"
  let ?sql = "''WHERE '' @ join '' AND '' (sqlStatments ?a @ [''equity > 0''])"
  have a: "Job_statements title minSalary hasEquity =
      \<lparr>sqlStatments = sqlStatments ?a @ [''equity > 0''],
       sanatizedStatments = sanatizedStatments ?a\<rparr>"
    by (rule job_equity_arrays [OF h])
  have r: "Job_createFilterSql title minSalary hasEquity =
      Inr (ReturnObject ?sql (sanatizedStatments ?a))"
    by (simp add: Job_createFilterSql_def a)
  have s: "suffix ''equity > 0'' ?sql"
    by (rule suffix_appendI) (rule join_last_suffix)
  have p: "placeholders ?sql = [1..<Suc (length (sanatizedStatments ?a))]"
    by (rule job_placeholders [OF r])
  have c: "placeholders ''equity > 0'' = []"
    by simp
  from a r s p c show ?thesis
    by (intro exI [of _ ?sql] exI [of _ "sanatizedStatments ?a"]) simp
qed

theorem hasEquity_constant_fragment_witness:
  "truthy (JStr ''true'') \<and>
   (\<exists>sql vals.
     Job_createFilterSql (JStr ''a'') (JNum 10) (JStr ''true'') = Inr (ReturnObject sql vals) \<and>
     suffix ''equity > 0'' sql \<and>
     placeholders ''equity > 0'' = [] \<and>
     sqlStatments (Job_statements (JStr ''a'') (JNum 10) (JStr ''true'')) =
       sqlStatments (Job_statements (JStr ''a'') (JNum 10) JUndefined) @ [''equity > 0''] \<and>
     vals = sanatizedStatments (Job_statements (JStr ''a'') (JNum 10) JUndefined) \<and>
     placeholders sql = [1..<Suc (length vals)])"
proof -
  have h: "truthy (JStr ''true'')" by simp
  from hasEquity_constant_fragment [OF h, of "JStr ''a''" "JNum 10"] h
  show ?thesis by blast
qed

text \<open>
  C7: when every filter input is absent (\<open>undefined\<close>), both filter builders return
  \<open>false\<close>, which is not an object with an empty clause; \<open>findAll\<close> then sends one
  query, whose text has no \<open>WHERE\<close> and whose values argument is the empty string, with
  no bind value in it.
\<close>

theorem no_filter_signal:
  "Company_createFilterSql JUndefined None None = Inr ReturnFalse \<and>
   Job_createFilterSql JUndefined JUndefined JUndefined = Inr ReturnFalse \<and>
   ReturnFalse \<noteq> ReturnObject [] vals \<and>
   Company_findAll db JUndefined None None =
     (Inr (db (Company_findAll_text JUndefined) (ValuesString [])),
      [(Company_findAll_text JUndefined, ValuesString [])]) \<and>
   Job_findAll db' JUndefined JUndefined JUndefined =
     (Inr (db' (Job_findAll_text JUndefined) (ValuesString [])),
      [(Job_findAll_text JUndefined, ValuesString [])]) \<and>
   \<not> sublist ''WHERE'' (Company_findAll_text JUndefined) \<and>
   \<not> sublist ''WHERE'' (Job_findAll_text JUndefined)"
proof (intro conjI)
  show c: "Company_createFilterSql JUndefined None None = Inr ReturnFalse"
    by (simp add: Company_createFilterSql_def Company_statements_def)
  show j: "Job_createFilterSql JUndefined JUndefined JUndefined = Inr ReturnFalse"
    by (simp add: Job_createFilterSql_def Job_statements_def)
  show "ReturnFalse \<noteq> ReturnObject [] vals"
    by simp
  show "Company_findAll db JUndefined None None =
     (Inr (db (Company_findAll_text JUndefined) (ValuesString [])),
      [(Company_findAll_text JUndefined, ValuesString [])])"
    by (simp add: Company_findAll_def c)
  show "Job_findAll db' JUndefined JUndefined JUndefined =
     (Inr (db' (Job_findAll_text JUndefined) (ValuesString [])),
      [(Job_findAll_text JUndefined, ValuesString [])])"
    by (simp add: Job_findAll_def j)
  show "\<not> sublist ''WHERE'' (Company_findAll_text JUndefined)"
    by code_simp
  show "\<not> sublist ''WHERE'' (Job_findAll_text JUndefined)"
    by code_simp
qed

text \<open>
  C8: the partial update of the single field \<open>title\<close> with value "TESTTEST" under an
  empty column map is the SET clause \<open>title = $1\<close> with the bind value "TESTTEST"; a
  field that the column map does not rename is written under its own name.
\<close>

theorem update_title_verbatim:
  "sqlForPartialUpdate [(''title'', JStr ''TESTTEST'')] Map.empty =
     Inr (''title = $1'', [JStr ''TESTTEST'']) \<and>
   (columnMap key = None \<longrightarrow>
      column_of columnMap key = key \<and>
      sqlForPartialUpdate [(key, v)] columnMap = Inr (key @ '' = $1'', [v]))"
  by (simp add: sqlForPartialUpdate_def column_of_def decimal_1)

theorem update_title_verbatim_witness:
  "map_of [(''numEmployees'', ''num_employees'')] ''name'' = None \<and>
   column_of (map_of [(''numEmployees'', ''num_employees'')]) ''name'' = ''name'' \<and>
   sqlForPartialUpdate [(''name'', JStr ''New'')] (map_of [(''numEmployees'', ''num_employees'')]) =
     Inr (''name = $1'', [JStr ''New''])"
proof -
  have h: "map_of [(''numEmployees'', ''num_employees'')] ''name'' = None"
    by simp
  from update_title_verbatim
    [where columnMap = "map_of [(''numEmployees'', ''num_employees'')]" and key = "''name''"
       and v = "JStr ''New''"] h
  show ?thesis by simp
qed

text \<open>
  C9: with a maximum of zero and a positive minimum the company filter throws the bounds
  error; whenever it does not throw, a maximum of zero gives the same result as no
  maximum at all, so the zero maximum is left out of the clause.
\<close>

theorem zero_maximum_still_validated:
  "(0 < minEmployees \<longrightarrow>
      Company_createFilterSql name (Some minEmployees) (Some 0) =
        Inl (BadRequestError ''minEmployees connot be greater than maxEmployees'')) \<and>
   (\<not> js_less (Some 0) bound \<longrightarrow>
      Company_createFilterSql name bound (Some 0) = Company_createFilterSql name bound None)"
  by (simp add: Company_createFilterSql_def Company_statements_def Let_def)

theorem zero_maximum_still_validated_witness:
  "(0::int) < 5 \<and>
   Company_createFilterSql (JStr ''ba'') (Some 5) (Some 0) =
     Inl (BadRequestError ''minEmployees connot be greater than maxEmployees'') \<and>
   \<not> js_less (Some 0) (Some (- 5)) \<and>
   Company_createFilterSql (JStr ''ba'') (Some (- 5)) (Some 0) =
     Company_createFilterSql (JStr ''ba'') (Some (- 5)) None \<and>
   Company_createFilterSql (JStr ''ba'') (Some (- 5)) None =
     Inr (ReturnObject ''WHERE name ILIKE $1 AND num_employees > $2'' [''ba%'', ''-5''])"
proof -
  have h: "(0::int) < 5" "\<not> js_less (Some 0) (Some (- 5))"
    by simp_all
  have e: "Company_createFilterSql (JStr ''ba'') (Some (- 5)) None =
     Inr (ReturnObject ''WHERE name ILIKE $1 AND num_employees > $2'' [''ba%'', ''-5''])"
    by code_simp
  from zero_maximum_still_validated
    [where minEmployees = 5 and name = "JStr ''ba''" and bound = "Some (- 5)"] h e
  show ?thesis by simp
qed

text \<open>
  C10, as stated, fails: the job filter does not return for every input triple. With a
  Symbol as title the template literal throws a \<open>TypeError\<close>.
\<close>

theorem job_filter_symbol_title_raises:
  "Job_createFilterSql_any (JSymbol ''t'') (Prim JUndefined) (Prim JUndefined) =
     Inl (TypeError ''Cannot convert a Symbol value to a string'')"
  by (simp add: Job_createFilterSql_any_def Job_statements_any_def)

text \<open>
  C10, amended: the job filter has no throw of its own and compares no input with
  another. It raises exactly when the title is truthy and its conversion to a string
  throws, or, the title being skipped or converted, when the minimum salary is truthy
  and its conversion throws; the exception is then the one of that conversion. On a
  title and a minimum salary that are undefined, null, a boolean, a number or a string it
  returns, whatever \<open>hasEquity\<close> is, and the result is that of the filter on
  primitives: \<open>false\<close> or an object with a clause. A title and a minimum salary that are
  primitives or Symbols never make it raise \<open>BadRequestError\<close>.
\<close>

theorem job_filter_raises_only_by_conversion:
  "((Job_createFilterSql_any title minSalary hasEquity = Inl e) =
      ((truthy_any title \<and> toString_any title = Inl e) \<or>
       (\<not> (truthy_any title \<and> isl (toString_any title)) \<and>
        truthy_any minSalary \<and> toString_any minSalary = Inl e))) \<and>
   Job_createFilterSql_any (Prim t) (Prim m) hasEquity =
     map_sum AppError id (Job_createFilterSql t m (JBool (truthy_any hasEquity))) \<and>
   (\<exists>r. Job_createFilterSql_any (Prim t) (Prim m) hasEquity = Inr r) \<and>
   (\<not> is_other title \<and> \<not> is_other minSalary \<longrightarrow>
      Job_createFilterSql_any title minSalary hasEquity \<noteq> Inl (AppError (BadRequestError msg)))"
proof (intro conjI impI)
  show "(Job_createFilterSql_any title minSalary hasEquity = Inl e) =
      ((truthy_any title \<and> toString_any title = Inl e) \<or>
       (\<not> (truthy_any title \<and> isl (toString_any title)) \<and>
        truthy_any minSalary \<and> toString_any minSalary = Inl e))"
    by (rule job_any_raises)
  show p: "Job_createFilterSql_any (Prim t) (Prim m) hasEquity =
     map_sum AppError id (Job_createFilterSql t m (JBool (truthy_any hasEquity)))"
    by (rule job_any_prim)
  from job_returns [of t m "JBool (truthy_any hasEquity)"]
  show "\<exists>r. Job_createFilterSql_any (Prim t) (Prim m) hasEquity = Inr r"
    unfolding p by auto
next
  assume "\<not> is_other title \<and> \<not> is_other minSalary"
  then show "Job_createFilterSql_any title minSalary hasEquity \<noteq>
      Inl (AppError (BadRequestError msg))"
    by (rule job_any_no_validation_error)
qed

theorem job_filter_raises_only_by_conversion_witness:
  "truthy_any (JSymbol ''m'') \<and>
   \<not> isl (toString_any (Prim (JStr ''a''))) \<and>
   Job_createFilterSql_any (Prim (JStr ''a'')) (JSymbol ''m'') (Prim JUndefined) =
     Inl (TypeError ''Cannot convert a Symbol value to a string'') \<and>
   \<not> is_other (Prim (JStr ''a'')) \<and> \<not> is_other (JSymbol ''m'') \<and>
   Job_createFilterSql_any (Prim (JStr ''a'')) (JSymbol ''m'') (Prim JUndefined) \<noteq>
     Inl (AppError (BadRequestError ''minEmployees connot be greater than maxEmployees'')) \<and>
   Job_createFilterSql_any (Prim (JStr ''test'')) (Prim (JNum 100)) (JSymbol ''e'') =
     Inr (ReturnObject ''WHERE title ILIKE $1 AND salary > $2 AND equity > 0''
            [''test%'', ''100''])"
proof -
  have h: "truthy_any (JSymbol ''m'')" "\<not> isl (toString_any (Prim (JStr ''a'')))"
    "toString_any (JSymbol ''m'') = Inl (TypeError ''Cannot convert a Symbol value to a string'')"
    "\<not> is_other (Prim (JStr ''a''))" "\<not> is_other (JSymbol ''m'')"
    by simp_all
  have r: "Job_createFilterSql (JStr ''test'') (JNum 100) (JBool (truthy_any (JSymbol ''e''))) =
     Inr (ReturnObject ''WHERE title ILIKE $1 AND salary > $2 AND equity > 0''
            [''test%'', ''100''])"
    by code_simp
  from job_filter_raises_only_by_conversion
    [where title = "Prim (JStr ''a'')" and minSalary = "JSymbol ''m''"
       and hasEquity = "Prim JUndefined"
       and e = "TypeError ''Cannot convert a Symbol value to a string''"
       and msg = "''minEmployees connot be greater than maxEmployees''"]
    job_filter_raises_only_by_conversion
    [where t = "JStr ''test''" and m = "JNum 100" and hasEquity = "JSymbol ''e''"]
    h r
  show ?thesis by simp
qed

end
